theory Spec2Isabelle
  imports Complex_Main
begin

section \<open>Strings, sets and maps of the host language\<close>

text \<open>
  The drift-detection engine is the class \<open>DriftDetection\<close>. Its functions are embedded
  below under their own names. A string is a list of characters; the model covers ASCII
  text: a character above 127 is a letter without case and is not white space. Numbers
  are exact reals, so the rounding of IEEE doubles is outside the model.
\<close>

definition isSpace :: "char \<Rightarrow> bool" where
  \<comment> \<open>the ASCII members of the regular expression class \<open>\s\<close>\<close>
  "isSpace c = (of_char c \<in> {9, 10, 11, 12, 13, 32 :: nat})"

definition lowerChar :: "char \<Rightarrow> char" where
  "lowerChar c =
     (let n = of_char c :: nat in if 65 \<le> n \<and> n \<le> 90 then char_of (n + 32) else c)"

definition toLowerCase :: "string \<Rightarrow> string" where
  "toLowerCase s = map lowerChar s"

text \<open>
  \<open>str.split(/\s+/)\<close>: the pieces between maximal runs of white space. A run at the start
  or at the end of the string leaves an empty piece there, and the empty string splits
  into one empty piece, so the result is never the empty array.
\<close>

fun splitFrom :: "string \<Rightarrow> string \<Rightarrow> string list"
  and skipSeparator :: "string \<Rightarrow> string list" where
  "splitFrom tok [] = [tok]"
| "splitFrom tok (c # cs) =
     (if isSpace c then tok # skipSeparator cs else splitFrom (tok @ [c]) cs)"
| "skipSeparator [] = [[]]"
| "skipSeparator (c # cs) = (if isSpace c then skipSeparator cs else splitFrom [c] cs)"

definition splitWhitespace :: "string \<Rightarrow> string list" where
  "splitWhitespace s = splitFrom [] s"

text \<open>
  \<open>new Set(xs)\<close>: the distinct elements of \<open>xs\<close> in the order of their first occurrence;
  \<open>size\<close> is the length of that list.
\<close>

definition newSet :: "'a list \<Rightarrow> 'a list" where
  "newSet xs = foldl (\<lambda>s x. if x \<in> set s then s else s @ [x]) [] xs"

text \<open>
  \<open>new Map(entries)\<close>: an association list. A key keeps the position of its first
  occurrence and takes the value of its last one.
\<close>

fun mapSet :: "('k \<times> 'v) list \<Rightarrow> 'k \<Rightarrow> 'v \<Rightarrow> ('k \<times> 'v) list" where
  "mapSet [] k v = [(k, v)]"
| "mapSet ((k', v') # m) k v =
     (if k' = k then (k, v) # m else (k', v') # mapSet m k v)"

definition newMap :: "('k \<times> 'v) list \<Rightarrow> ('k \<times> 'v) list" where
  "newMap entries = foldl (\<lambda>m (k, v). mapSet m k v) [] entries"

definition mapHas :: "('k \<times> 'v) list \<Rightarrow> 'k \<Rightarrow> bool" where
  "mapHas m k = (k \<in> set (map fst m))"

definition mapGet :: "('k \<times> 'v) list \<Rightarrow> 'k \<Rightarrow> 'v option" where
  "mapGet m k = map_of m k"

section \<open>Data model\<close>

datatype DocumentType =
  Microservice | ApiEndpoint | BusinessLogic | SystemArchitecture
  | DatabaseSchema | ConfigurationDocument | Deployment | SecurityPolicy

datatype SectionType =
  Overview | Inputs | Outputs | Dependencies
  | Examples | Configuration | Troubleshooting | RelatedServices

text \<open>
  The values a metadata property holds by its declared type: a string, an array of
  strings or a number. A number is carried as the decimal text that \<open>String\<close> gives it,
  the only thing the engine ever does with one. A property that is missing reads as
  \<open>JUndefined\<close>.
\<close>

datatype jsvalue = JUndefined | JString string | JArray "string list" | JNumber string

type_synonym jsobject = "string \<rightharpoonup> jsvalue"

definition getProperty :: "jsobject \<Rightarrow> string \<Rightarrow> jsvalue" where
  "getProperty obj field = (case obj field of None \<Rightarrow> JUndefined | Some v \<Rightarrow> v)"

record DocumentInput =
  input_content :: string
  input_type :: DocumentType
  input_metadata :: jsobject

record DocumentSection =
  sec_title :: string
  sec_content :: string
  sec_type :: SectionType
  sec_metadata :: "jsobject option"

text \<open>
  \<open>sections\<close> is declared \<open>DocumentSection[]\<close>. The record takes the type of that field as
  a parameter: a document as the functions are typed has a list there, a document as it
  arrives at run time may have \<open>undefined\<close> there (\<open>None\<close>).
\<close>

record 'secs DocumentContent =
  title :: string
  summary :: string
  description :: string
  purpose :: string
  sections :: 'secs

record 'secs EnrichedDocument =
  doc_id :: "string option"
  originalInput :: DocumentInput
  enrichedContent :: "'secs DocumentContent"
  metadata :: jsobject
  structuredData :: jsobject
  createdAt :: string
  updatedAt :: string

type_synonym Sections = "DocumentSection list"

datatype ChangeType = Addition | Deletion | Modification

datatype Significance = Low | Medium | High

datatype DriftRecommendation = CreateNew | UpdateExisting | ManualReview | MergeRequired

record DriftChange =
  changeSection :: string
  changeType :: ChangeType
  oldValue :: "string option"
  newValue :: "string option"
  significance :: Significance

record DriftAnalysis =
  hasChanges :: bool
  confidence :: real
  changes :: "DriftChange list"
  recommendation :: DriftRecommendation

record AnalyzeOptions =
  threshold :: "real option"
  ignoreMinorChanges :: "bool option"
  focusAreas :: "string list option"

definition defaultOptions :: AnalyzeOptions where
  \<comment> \<open>the default argument \<open>{}\<close>\<close>
  "defaultOptions = \<lparr>threshold = None, ignoreMinorChanges = None, focusAreas = None\<rparr>"

section \<open>Text similarity\<close>

definition SIMILARITY_THRESHOLD :: real where
  "SIMILARITY_THRESHOLD = 0.7"

definition HIGH_SIGNIFICANCE_THRESHOLD :: real where
  "HIGH_SIGNIFICANCE_THRESHOLD = 0.5"

definition MEDIUM_SIGNIFICANCE_THRESHOLD :: real where
  "MEDIUM_SIGNIFICANCE_THRESHOLD = 0.8"

text \<open>
  The body of \<open>calculateStringSimilarity\<close> from the two token arrays on: the Jaccard
  index of the two token sets, with the guard for an empty union.
\<close>

definition tokenSimilarity :: "string list \<Rightarrow> string list \<Rightarrow> real" where
  "tokenSimilarity tokens1 tokens2 =
     (let set1 = newSet tokens1;
          set2 = newSet tokens2;
          intersection = newSet (filter (\<lambda>x. x \<in> set set2) set1);
          union = newSet (set1 @ set2)
      in if length union = 0 then 1
         else real (length intersection) / real (length union))"

definition calculateStringSimilarity :: "string \<Rightarrow> string \<Rightarrow> real" where
  "calculateStringSimilarity str1 str2 =
     tokenSimilarity (splitWhitespace (toLowerCase str1)) (splitWhitespace (toLowerCase str2))"

definition determineSignificance :: "real \<Rightarrow> Significance" where
  "determineSignificance similarity =
     (if similarity < HIGH_SIGNIFICANCE_THRESHOLD then High
      else if similarity < MEDIUM_SIGNIFICANCE_THRESHOLD then Medium
      else Low)"

section \<open>Change detection\<close>

definition orFalse :: "bool option \<Rightarrow> bool" where
  \<comment> \<open>an optional boolean read as a condition, or through the default \<open>= false\<close>\<close>
  "orFalse b = (case b of None \<Rightarrow> False | Some v \<Rightarrow> v)"

definition analyzeTextChanges ::
  "string \<Rightarrow> string \<Rightarrow> string \<Rightarrow> bool option \<Rightarrow> DriftChange list" where
  "analyzeTextChanges sectionName oldText newText ignoreMinorArg =
     (let ignoreMinor = orFalse ignoreMinorArg in
      if oldText = newText then []
      else
        let similarity = calculateStringSimilarity oldText newText in
        if ignoreMinor \<and> similarity > 0.95 then []
        else
          [\<lparr>changeSection = sectionName, changeType = Modification,
            oldValue = Some oldText, newValue = Some newText,
            significance = determineSignificance similarity\<rparr>])"

text \<open>
  The three loops of \<open>analyzeSectionChanges\<close> run over the entries of a map in order and
  push at most one change per entry; each is the concatenation of what its entries push.
\<close>

definition analyzeSectionChanges ::
  "Sections \<Rightarrow> Sections \<Rightarrow> bool option \<Rightarrow> DriftChange list" where
  "analyzeSectionChanges existingSections newSections ignoreMinorArg =
     (let ignoreMinor = orFalse ignoreMinorArg;
          existingMap = newMap (map (\<lambda>s. (sec_title s, s)) existingSections);
          incomingMap = newMap (map (\<lambda>s. (sec_title s, s)) newSections);
          deletions = concat (map (\<lambda>(key, sec).
            if \<not> mapHas incomingMap key then
              [\<lparr>changeSection = ''sections.'' @ key, changeType = Deletion,
                oldValue = Some (sec_content sec), newValue = None,
                significance = Medium\<rparr>]
            else []) existingMap);
          additions = concat (map (\<lambda>(key, sec).
            if \<not> mapHas existingMap key then
              [\<lparr>changeSection = ''sections.'' @ key, changeType = Addition,
                oldValue = None, newValue = Some (sec_content sec),
                significance = Medium\<rparr>]
            else []) incomingMap);
          modifications = concat (map (\<lambda>(key, newSection).
            case mapGet existingMap key of
              None \<Rightarrow> []
            | Some existingSection \<Rightarrow>
                if sec_content existingSection \<noteq> sec_content newSection then
                  let similarity =
                    calculateStringSimilarity (sec_content existingSection) (sec_content newSection)
                  in if ignoreMinor \<and> similarity > 0.95 then []
                     else
                       [\<lparr>changeSection = ''sections.'' @ key, changeType = Modification,
                         oldValue = Some (sec_content existingSection),
                         newValue = Some (sec_content newSection),
                         significance = determineSignificance similarity\<rparr>]
                else []) incomingMap)
      in deletions @ additions @ modifications)"

subsection \<open>Metadata\<close>

definition hexDigit :: "nat \<Rightarrow> char" where
  "hexDigit d = (if d < 10 then char_of (48 + d) else char_of (87 + d))"

definition quoteChar :: "char \<Rightarrow> string" where
  \<comment> \<open>one character inside a JSON string literal\<close>
  "quoteChar c =
     (let n = of_char c :: nat in
      if n = 34 then [CHR 0x5C, CHR 0x22]
      else if n = 92 then [CHR 0x5C, CHR 0x5C]
      else if n = 8 then [CHR 0x5C, CHR ''b'']
      else if n = 9 then [CHR 0x5C, CHR ''t'']
      else if n = 10 then [CHR 0x5C, CHR ''n'']
      else if n = 12 then [CHR 0x5C, CHR ''f'']
      else if n = 13 then [CHR 0x5C, CHR ''r'']
      else if n < 32 then
        [CHR 0x5C, CHR ''u'', CHR ''0'', CHR ''0'', hexDigit (n div 16), hexDigit (n mod 16)]
      else [c])"

definition quoteJSONString :: "string \<Rightarrow> string" where
  "quoteJSONString s = [CHR 0x22] @ concat (map quoteChar s) @ [CHR 0x22]"

fun joinWith :: "string \<Rightarrow> string list \<Rightarrow> string" where
  "joinWith sep [] = []"
| "joinWith sep [x] = x"
| "joinWith sep (x # y # ys) = x @ sep @ joinWith sep (y # ys)"

text \<open>\<open>JSON.stringify\<close>; its result for \<open>undefined\<close> is \<open>undefined\<close>, not a string.\<close>

fun JSON_stringify :: "jsvalue \<Rightarrow> string option" where
  "JSON_stringify JUndefined = None"
| "JSON_stringify (JString s) = Some (quoteJSONString s)"
| "JSON_stringify (JArray xs) = Some (''['' @ joinWith '','' (map quoteJSONString xs) @ '']'')"
| "JSON_stringify (JNumber t) =
     Some (if t = ''NaN'' \<or> t = ''Infinity'' \<or> t = ''-Infinity'' then ''null'' else t)"

fun formatMetadataValue :: "jsvalue \<Rightarrow> string" where
  "formatMetadataValue (JArray xs) = joinWith '', '' xs"
| "formatMetadataValue JUndefined = []"
| "formatMetadataValue (JString s) = s"
| "formatMetadataValue (JNumber t) = (if t = ''0'' \<or> t = ''NaN'' then [] else t)"

definition determineMetadataSignificance ::
  "string \<Rightarrow> jsvalue \<Rightarrow> jsvalue \<Rightarrow> Significance" where
  "determineMetadataSignificance field oldVal newVal =
     (let highImpactFields = [''serviceName'', ''version''];
          mediumImpactFields = [''dependencies'', ''category'', ''businessUnit'']
      in if field \<in> set highImpactFields then High
         else if field \<in> set mediumImpactFields then Medium
         else Low)"

definition analyzeMetadataChanges ::
  "jsobject \<Rightarrow> jsobject \<Rightarrow> string list option \<Rightarrow> DriftChange list" where
  "analyzeMetadataChanges existingMetadata newMetadata focusAreasArg =
     (let fieldsToCheck =
            (case focusAreasArg of
               Some areas \<Rightarrow> areas
             | None \<Rightarrow> [''serviceName'', ''version'', ''dependencies'', ''tags'',
                        ''category'', ''businessUnit''])
      in concat (map (\<lambda>field.
           let oldVal = getProperty existingMetadata field;
               newVal = getProperty newMetadata field
           in if JSON_stringify oldVal \<noteq> JSON_stringify newVal then
                [\<lparr>changeSection = ''metadata.'' @ field, changeType = Modification,
                  oldValue = Some (formatMetadataValue oldVal),
                  newValue = Some (formatMetadataValue newVal),
                  significance = determineMetadataSignificance field oldVal newVal\<rparr>]
              else []) fieldsToCheck))"

subsection \<open>Confidence and recommendation\<close>

definition countSignificance :: "Significance \<Rightarrow> DriftChange list \<Rightarrow> nat" where
  \<comment> \<open>\<open>changes.filter(c => c.significance === s).length\<close>\<close>
  "countSignificance s cs = length (filter (\<lambda>c. significance c = s) cs)"

definition calculateConfidence :: "DriftChange list \<Rightarrow> real" where
  "calculateConfidence cs =
     (if length cs = 0 then 1.0
      else
        let base = 0.8;
            afterCount = base - min 0.4 (real (length cs) * 0.05);
            highImpactChanges = countSignificance High cs;
            mediumImpactChanges = countSignificance Medium cs;
            afterImpact =
              afterCount - (real highImpactChanges * 0.15 + real mediumImpactChanges * 0.08)
        in max 0.1 (min 1.0 afterImpact))"

definition generateRecommendation :: "DriftChange list \<Rightarrow> real \<Rightarrow> DriftRecommendation" where
  "generateRecommendation cs conf =
     (if length cs = 0 then CreateNew
      else
        let highImpactChanges = countSignificance High cs;
            mediumImpactChanges = countSignificance Medium cs;
            totalChanges = length cs
        in if highImpactChanges > 2 \<or> conf < 0.5 then ManualReview
           else if totalChanges \<le> 3 \<and> highImpactChanges \<le> 1 then UpdateExisting
           else if totalChanges > 5 then CreateNew
           else MergeRequired)"

subsection \<open>The analyzer\<close>

definition analyzeDocuments ::
  "Sections EnrichedDocument \<Rightarrow> Sections EnrichedDocument \<Rightarrow> AnalyzeOptions \<Rightarrow> DriftAnalysis" where
  "analyzeDocuments existing newDoc options =
     (let thresholdUsed =
            (case threshold options of
               None \<Rightarrow> SIMILARITY_THRESHOLD
             | Some t \<Rightarrow> if t = 0 then SIMILARITY_THRESHOLD else t);
          titleChanges =
            (if title (enrichedContent existing) \<noteq> title (enrichedContent newDoc) then
               let titleSimilarity =
                 calculateStringSimilarity
                   (title (enrichedContent existing)) (title (enrichedContent newDoc))
               in [\<lparr>changeSection = ''title'', changeType = Modification,
                    oldValue = Some (title (enrichedContent existing)),
                    newValue = Some (title (enrichedContent newDoc)),
                    significance =
                      (if titleSimilarity < HIGH_SIGNIFICANCE_THRESHOLD then High else Medium)\<rparr>]
             else []);
          descriptionChanges =
            analyzeTextChanges ''description''
              (description (enrichedContent existing)) (description (enrichedContent newDoc))
              (ignoreMinorChanges options);
          purposeChanges =
            (if purpose (enrichedContent existing) \<noteq> purpose (enrichedContent newDoc) then
               analyzeTextChanges ''purpose''
                 (purpose (enrichedContent existing)) (purpose (enrichedContent newDoc))
                 (ignoreMinorChanges options)
             else []);
          sectionChanges =
            analyzeSectionChanges
              (sections (enrichedContent existing)) (sections (enrichedContent newDoc))
              (ignoreMinorChanges options);
          metadataChanges =
            analyzeMetadataChanges (metadata existing) (metadata newDoc) (focusAreas options);
          allChanges =
            titleChanges @ descriptionChanges @ purposeChanges @ sectionChanges @ metadataChanges;
          filteredChanges =
            (if orFalse (ignoreMinorChanges options)
             then filter (\<lambda>change. significance change \<noteq> Low) allChanges
             else allChanges);
          conf = calculateConfidence filteredChanges
      in \<lparr>hasChanges = (length filteredChanges > 0),
          confidence = conf,
          changes = filteredChanges,
          recommendation = generateRecommendation filteredChanges conf\<rparr>)"

text \<open>
  The analyzer on documents as they arrive at run time. Nothing in \<open>analyzeDocuments\<close>
  tests whether \<open>sections\<close> is there: \<open>analyzeSectionChanges\<close> starts with
  \<open>existingSections.map(...)\<close> and \<open>newSections.map(...)\<close>, and a call of \<open>map\<close> on
  \<open>undefined\<close> throws a \<open>TypeError\<close>, which nothing inside the class catches. The
  steps before it have no effect of their own.
\<close>

datatype js_error = TypeError

definition typedDocument :: "'a EnrichedDocument \<Rightarrow> 'b \<Rightarrow> 'b EnrichedDocument" where
  "typedDocument d secs =
     \<lparr>doc_id = doc_id d, originalInput = originalInput d,
      enrichedContent =
        \<lparr>title = title (enrichedContent d), summary = summary (enrichedContent d),
         description = description (enrichedContent d), purpose = purpose (enrichedContent d),
         sections = secs\<rparr>,
      metadata = metadata d, structuredData = structuredData d,
      createdAt = createdAt d, updatedAt = updatedAt d\<rparr>"

definition analyzeDocuments_runtime ::
  "Sections option EnrichedDocument \<Rightarrow> Sections option EnrichedDocument \<Rightarrow> AnalyzeOptions
     \<Rightarrow> js_error + DriftAnalysis" where
  "analyzeDocuments_runtime existing newDoc options =
     (case sections (enrichedContent existing) of
        None \<Rightarrow> Inl TypeError
      | Some existingSections \<Rightarrow>
          (case sections (enrichedContent newDoc) of
             None \<Rightarrow> Inl TypeError
           | Some newSections \<Rightarrow>
               Inr (analyzeDocuments (typedDocument existing existingSections)
                      (typedDocument newDoc newSections) options)))"

section \<open>Section comparison and merge\<close>

record ModifiedSection =
  m_title :: string
  m_existing :: DocumentSection
  m_new :: DocumentSection
  m_similarity :: real

record SectionComparison =
  added :: "DocumentSection list"
  removed :: "DocumentSection list"
  modified :: "ModifiedSection list"
  unchanged :: "DocumentSection list"

text \<open>
  The third loop of \<open>compareSections\<close> pushes an entry to \<open>unchanged\<close> or to \<open>modified\<close>;
  \<open>classified\<close> holds what each entry pushes to the two arrays.
\<close>

definition compareSections :: "Sections \<Rightarrow> Sections \<Rightarrow> SectionComparison" where
  "compareSections existingSections newSections =
     (let existingMap = newMap (map (\<lambda>s. (sec_title s, s)) existingSections);
          incomingMap = newMap (map (\<lambda>s. (sec_title s, s)) newSections);
          addedSections = concat (map (\<lambda>(key, sec).
            if \<not> mapHas existingMap key then [sec] else []) incomingMap);
          removedSections = concat (map (\<lambda>(key, sec).
            if \<not> mapHas incomingMap key then [sec] else []) existingMap);
          classified = map (\<lambda>(key, newSection).
            case mapGet existingMap key of
              None \<Rightarrow> ([], [])
            | Some existingSection \<Rightarrow>
                if sec_content existingSection = sec_content newSection
                then ([], [newSection])
                else
                  ([\<lparr>m_title = key, m_existing = existingSection, m_new = newSection,
                     m_similarity =
                       calculateStringSimilarity
                         (sec_content existingSection) (sec_content newSection)\<rparr>],
                   [])) incomingMap
      in \<lparr>added = addedSections, removed = removedSections,
          modified = concat (map fst classified),
          unchanged = concat (map snd classified)\<rparr>)"

text \<open>
  \<open>new Date().toISOString()\<close> reads the clock; \<open>clock k\<close> is the text of the reading
  number \<open>k\<close> made during one call.
\<close>

definition mergeSections ::
  "(nat \<Rightarrow> string) \<Rightarrow> Sections EnrichedDocument \<Rightarrow> Sections EnrichedDocument
     \<Rightarrow> Sections EnrichedDocument" where
  "mergeSections clock existing newDoc =
     (let comparison =
            compareSections
              (sections (enrichedContent existing)) (sections (enrichedContent newDoc));
          mergedSections =
            unchanged comparison @ map m_new (modified comparison) @ added comparison
      in existing
           \<lparr>enrichedContent := (enrichedContent newDoc)\<lparr>sections := mergedSections\<rparr>,
            metadata :=
              (metadata existing ++ metadata newDoc)
                (''enrichmentTimestamp'' \<mapsto> JString (clock 0)),
            updatedAt := clock 1\<rparr>)"

definition createMergePreview ::
  "(nat \<Rightarrow> string) \<Rightarrow> Sections EnrichedDocument \<Rightarrow> Sections EnrichedDocument \<Rightarrow> string
     \<Rightarrow> Sections EnrichedDocument" where
  "createMergePreview clock existing newDoc strategy =
     (if strategy = ''prefer-new'' then
        newDoc\<lparr>doc_id := doc_id existing, createdAt := createdAt existing,
               updatedAt := clock 0\<rparr>
      else if strategy = ''prefer-existing'' then
        existing\<lparr>updatedAt := clock 0\<rparr>
      else mergeSections clock existing newDoc)"

section \<open>Sample values\<close>

text \<open>Concrete documents and section lists on which the theorems below are instantiated.\<close>

abbreviation sectionMap :: "Sections \<Rightarrow> (string \<times> DocumentSection) list" where
  "sectionMap ss \<equiv> newMap (map (\<lambda>s. (sec_title s, s)) ss)"

definition storedDocument :: "Sections EnrichedDocument" where
  "storedDocument =
     \<lparr>doc_id = Some ''doc-1'',
      originalInput =
        \<lparr>input_content = ''auth'', input_type = Microservice, input_metadata = Map.empty\<rparr>,
      enrichedContent =
        \<lparr>title = ''Auth Service'', summary = ''Login'', description = ''Issues tokens'',
         purpose = ''Sign in'',
         sections =
           [\<lparr>sec_title = ''Overview'', sec_content = ''issues session tokens'',
             sec_type = Overview, sec_metadata = None\<rparr>,
            \<lparr>sec_title = ''Legacy'', sec_content = ''old notes'',
             sec_type = Troubleshooting, sec_metadata = None\<rparr>]\<rparr>,
      metadata = [''version'' \<mapsto> JString ''1.0''], structuredData = Map.empty,
      createdAt = ''2024-01-01'', updatedAt = ''2024-01-02''\<rparr>"

definition renamedDocument :: "Sections EnrichedDocument" where
  "renamedDocument =
     storedDocument
       \<lparr>enrichedContent := (enrichedContent storedDocument)
          \<lparr>title := ''Authentication Service''\<rparr>\<rparr>"

definition revisedDocument :: "Sections EnrichedDocument" where
  "revisedDocument =
     storedDocument
       \<lparr>enrichedContent := (enrichedContent storedDocument)
          \<lparr>sections :=
             [\<lparr>sec_title = ''Overview'', sec_content = ''validates passwords'',
               sec_type = Overview, sec_metadata = None\<rparr>,
              \<lparr>sec_title = ''New'', sec_content = ''x'',
               sec_type = Examples, sec_metadata = None\<rparr>]\<rparr>\<rparr>"

definition repeatedSections :: Sections where
  "repeatedSections =
     [\<lparr>sec_title = ''A'', sec_content = ''x y'', sec_type = Overview, sec_metadata = None\<rparr>,
      \<lparr>sec_title = ''B'', sec_content = ''x y'', sec_type = Inputs, sec_metadata = None\<rparr>,
      \<lparr>sec_title = ''A'', sec_content = ''z'', sec_type = Outputs, sec_metadata = None\<rparr>]"

definition arrivingSections :: Sections where
  "arrivingSections =
     [\<lparr>sec_title = ''A'', sec_content = ''x y'', sec_type = Overview, sec_metadata = None\<rparr>,
      \<lparr>sec_title = ''C'', sec_content = ''q'', sec_type = Examples, sec_metadata = None\<rparr>]"

definition fixedClock :: "nat \<Rightarrow> string" where
  "fixedClock k = (if k = 0 then ''2024-06-01T10:00:00.000Z'' else ''2024-06-01T10:00:00.001Z'')"

section \<open>Properties of sets and maps\<close>

lemma foldl_setAdd_set:
  "set (foldl (\<lambda>s x. if x \<in> set s then s else s @ [x]) acc xs) = set acc \<union> set xs"
  by (induction xs arbitrary: acc) auto

lemma foldl_setAdd_distinct:
  "distinct acc \<Longrightarrow> distinct (foldl (\<lambda>s x. if x \<in> set s then s else s @ [x]) acc xs)"
  by (induction xs arbitrary: acc) auto

lemma set_newSet: "set (newSet xs) = set xs"
  by (simp add: newSet_def foldl_setAdd_set)

lemma distinct_newSet: "distinct (newSet xs)"
  by (simp add: newSet_def foldl_setAdd_distinct)

lemma length_newSet: "length (newSet xs) = card (set xs)"
  using distinct_card [OF distinct_newSet, of xs] by (simp add: set_newSet)

lemma keys_mapSet: "fst ` set (mapSet m k v) = insert k (fst ` set m)"
  by (induction m k v rule: mapSet.induct) auto

lemma distinct_mapSet: "distinct (map fst m) \<Longrightarrow> distinct (map fst (mapSet m k v))"
proof (induction m k v rule: mapSet.induct)
  case (1 k v)
  show ?case by simp
next
  case (2 k' v' m k v)
  then show ?case
    by (auto simp: keys_mapSet)
qed

lemma set_mapSet: "set (mapSet m k v) \<subseteq> insert (k, v) (set m)"
  by (induction m k v rule: mapSet.induct) auto

lemma map_of_mapSet: "map_of (mapSet m k v) k' = (if k' = k then Some v else map_of m k')"
  by (induction m k v rule: mapSet.induct) auto

lemma foldl_mapSet_keys:
  "fst ` set (foldl (\<lambda>m (k, v). mapSet m k v) acc es) = fst ` set acc \<union> fst ` set es"
proof (induction es arbitrary: acc)
  case Nil
  show ?case by simp
next
  case (Cons e es)
  obtain k v where e: "e = (k, v)" by (cases e)
  have "fst ` set (foldl (\<lambda>m (k, v). mapSet m k v) (mapSet acc k v) es)
          = fst ` set (mapSet acc k v) \<union> fst ` set es"
    by (rule Cons.IH)
  then show ?case
    by (simp add: e keys_mapSet)
qed

lemma foldl_mapSet_distinct:
  "distinct (map fst acc) \<Longrightarrow> distinct (map fst (foldl (\<lambda>m (k, v). mapSet m k v) acc es))"
  by (induction es arbitrary: acc) (auto simp: distinct_mapSet)

lemma foldl_mapSet_entries:
  "set (foldl (\<lambda>m (k, v). mapSet m k v) acc es) \<subseteq> set acc \<union> set es"
proof (induction es arbitrary: acc)
  case Nil
  show ?case by simp
next
  case (Cons e es)
  obtain k v where e: "e = (k, v)" by (cases e)
  have "set (foldl (\<lambda>m (k, v). mapSet m k v) (mapSet acc k v) es)
          \<subseteq> set (mapSet acc k v) \<union> set es"
    by (rule Cons.IH)
  with set_mapSet [of acc k v] show ?case
    by (auto simp: e)
qed

lemma foldl_mapSet_lookup:
  "map_of (foldl (\<lambda>m (k, v). mapSet m k v) acc es) k =
     (case map_of (rev es) k of Some v \<Rightarrow> Some v | None \<Rightarrow> map_of acc k)"
proof (induction es arbitrary: acc)
  case Nil
  show ?case by simp
next
  case (Cons e es)
  obtain k' v' where e: "e = (k', v')" by (cases e)
  show ?case
    by (auto simp: e Cons.IH map_of_mapSet map_add_def split: option.splits)
qed

lemma keys_newMap: "fst ` set (newMap es) = fst ` set es"
  by (simp add: newMap_def foldl_mapSet_keys)

lemma distinct_newMap: "distinct (map fst (newMap es))"
  by (simp add: newMap_def foldl_mapSet_distinct)

lemma entries_newMap: "set (newMap es) \<subseteq> set es"
  using foldl_mapSet_entries [of "[]" es] by (simp add: newMap_def)

text \<open>On a repeated key the map holds the value of the last entry with that key.\<close>

lemma newMap_last_wins: "mapGet (newMap es) k = map_of (rev es) k"
  by (simp add: newMap_def mapGet_def foldl_mapSet_lookup split: option.splits)

lemma mapGet_entry: "distinct (map fst m) \<Longrightarrow> (k, v) \<in> set m \<Longrightarrow> mapGet m k = Some v"
  by (simp add: mapGet_def)

lemma mapHas_mapGet: "mapHas m k \<longleftrightarrow> mapGet m k \<noteq> None"
  by (simp add: mapHas_def mapGet_def map_of_eq_None_iff)

lemma keys_sectionMap: "fst ` set (sectionMap ss) = sec_title ` set ss"
  by (simp add: keys_newMap image_image)

lemma sectionMap_title: "(k, s) \<in> set (sectionMap ss) \<Longrightarrow> sec_title s = k"
  using entries_newMap [of "map (\<lambda>s. (sec_title s, s)) ss"] by auto

lemma mapHas_sectionMap: "mapHas (sectionMap ss) k \<longleftrightarrow> k \<in> sec_title ` set ss"
  by (simp add: mapHas_def keys_sectionMap)

section \<open>Properties of the similarity score\<close>

lemma splitFrom_nonempty: "splitFrom tok s \<noteq> []" and "skipSeparator s \<noteq> []"
  by (induction tok s and s rule: splitFrom_skipSeparator.induct) auto

text \<open>
  A string always splits into at least one token, so the union of two token sets taken
  from strings is never empty.
\<close>

lemma splitWhitespace_nonempty: "splitWhitespace s \<noteq> []"
  by (simp add: splitWhitespace_def splitFrom_nonempty)

lemma tokenSimilarity_bounds: "0 \<le> tokenSimilarity xs ys \<and> tokenSimilarity xs ys \<le> 1"
proof -
  have "card (set xs \<inter> set ys) \<le> card (set xs \<union> set ys)"
    by (rule card_mono) auto
  then show ?thesis
    by (auto simp: tokenSimilarity_def Let_def length_newSet set_newSet Int_def [symmetric]
        divide_le_eq_1 intro: arg_cong [where f = card])
qed

lemma auth_similarity:
  "calculateStringSimilarity ''Auth Service'' ''Authentication Service'' = 1 / 3"
  by code_simp

section \<open>Properties of change detection\<close>

lemma analyzeTextChanges_same: "analyzeTextChanges n t t ig = []"
  by (simp add: analyzeTextChanges_def Let_def)

lemma analyzeSectionChanges_same: "analyzeSectionChanges ss ss ig = []"
proof -
  let ?m = "sectionMap ss"
  have has: "\<And>k s. (k, s) \<in> set ?m \<Longrightarrow> mapHas ?m k"
    by (force simp: mapHas_def)
  have get: "\<And>k s. (k, s) \<in> set ?m \<Longrightarrow> mapGet ?m k = Some s"
    by (rule mapGet_entry [OF distinct_newMap])
  show ?thesis
    unfolding analyzeSectionChanges_def Let_def
    by (auto simp: has get)
qed

lemma analyzeMetadataChanges_same: "analyzeMetadataChanges m m fa = []"
  by (simp add: analyzeMetadataChanges_def Let_def)

text \<open>The last three fields of the result are functions of the change list it returns.\<close>

lemma analyze_fields:
  "confidence (analyzeDocuments e n opts) =
     calculateConfidence (changes (analyzeDocuments e n opts))"
  "recommendation (analyzeDocuments e n opts) =
     generateRecommendation (changes (analyzeDocuments e n opts))
       (confidence (analyzeDocuments e n opts))"
  "hasChanges (analyzeDocuments e n opts) = (length (changes (analyzeDocuments e n opts)) > 0)"
  by (simp_all only: analyzeDocuments_def Let_def DriftAnalysis.select_convs)

lemma revised_changes:
  "changes (analyzeDocuments storedDocument revisedDocument defaultOptions) =
     [\<lparr>changeSection = ''sections.Legacy'', changeType = Deletion,
       oldValue = Some ''old notes'', newValue = None, significance = Medium\<rparr>,
      \<lparr>changeSection = ''sections.New'', changeType = Addition, oldValue = None,
       newValue = Some ''x'', significance = Medium\<rparr>,
      \<lparr>changeSection = ''sections.Overview'', changeType = Modification,
       oldValue = Some ''issues session tokens'', newValue = Some ''validates passwords'',
       significance = High\<rparr>]"
  by code_simp

section \<open>Properties of the section comparison\<close>

lemma pushed_titles:
  assumes "\<And>k s. (k, s) \<in> set m \<Longrightarrow> sec_title s = k"
  shows "map sec_title (concat (map (\<lambda>(k, s). if P k then [s] else []) m)) = filter P (map fst m)"
  using assms by (induction m) auto

lemma pushed_entries:
  "concat (map (\<lambda>(k, s). if P k then [s] else []) m) = map snd (filter (\<lambda>(k, s). P k) m)"
  by (induction m) auto

lemma classified_modified:
  "map m_title (concat (map fst (map (\<lambda>(k, s).
      case G k of None \<Rightarrow> ([], [])
      | Some e \<Rightarrow>
          if C e s then ([], [s])
          else ([\<lparr>m_title = k, m_existing = e, m_new = s, m_similarity = S e s\<rparr>], [])) m)))
   = map fst (filter (\<lambda>(k, s). \<exists>e. G k = Some e \<and> \<not> C e s) m)"
  by (induction m) (auto split: option.splits)

lemma classified_modified_new:
  "map m_new (concat (map fst (map (\<lambda>(k, s).
      case G k of None \<Rightarrow> ([], [])
      | Some e \<Rightarrow>
          if C e s then ([], [s])
          else ([\<lparr>m_title = k, m_existing = e, m_new = s, m_similarity = S e s\<rparr>], [])) m)))
   = map snd (filter (\<lambda>(k, s). \<exists>e. G k = Some e \<and> \<not> C e s) m)"
  by (induction m) (auto split: option.splits)

lemma classified_unchanged:
  "concat (map snd (map (\<lambda>(k, s).
      case G k of None \<Rightarrow> ([], [])
      | Some e \<Rightarrow>
          if C e s then ([], [s])
          else ([\<lparr>m_title = k, m_existing = e, m_new = s, m_similarity = S e s\<rparr>], [])) m))
   = map snd (filter (\<lambda>(k, s). \<exists>e. G k = Some e \<and> C e s) m)"
  by (induction m) (auto split: option.splits)

lemma entry_titles:
  assumes "\<And>k s. (k, s) \<in> set m \<Longrightarrow> sec_title s = k"
  shows "map sec_title (map snd (filter Q m)) = map fst (filter Q m)"
  using assms by (induction m) auto

text \<open>The titles of each output array, read off the two maps.\<close>

lemma compareSections_titles:
  fixes es ns :: Sections
  defines "E \<equiv> sectionMap es" and "N \<equiv> sectionMap ns"
  defines "c \<equiv> compareSections es ns"
  shows "map sec_title (added c) = filter (\<lambda>k. \<not> mapHas E k) (map fst N)"
    and "map sec_title (removed c) = filter (\<lambda>k. \<not> mapHas N k) (map fst E)"
    and "map m_title (modified c) =
           map fst (filter (\<lambda>(k, s). \<exists>e. mapGet E k = Some e \<and> sec_content e \<noteq> sec_content s) N)"
    and "map sec_title (map m_new (modified c)) = map m_title (modified c)"
    and "map sec_title (unchanged c) =
           map fst (filter (\<lambda>(k, s). \<exists>e. mapGet E k = Some e \<and> sec_content e = sec_content s) N)"
proof -
  have tN: "\<And>k s. (k, s) \<in> set N \<Longrightarrow> sec_title s = k"
    unfolding N_def by (rule sectionMap_title)
  have tE: "\<And>k s. (k, s) \<in> set E \<Longrightarrow> sec_title s = k"
    unfolding E_def by (rule sectionMap_title)
  show "map sec_title (added c) = filter (\<lambda>k. \<not> mapHas E k) (map fst N)"
    unfolding c_def compareSections_def Let_def E_def [symmetric] N_def [symmetric]
    by (simp add: pushed_titles [OF tN])
  show "map sec_title (removed c) = filter (\<lambda>k. \<not> mapHas N k) (map fst E)"
    unfolding c_def compareSections_def Let_def E_def [symmetric] N_def [symmetric]
    by (simp add: pushed_titles [OF tE])
  show m: "map m_title (modified c) =
           map fst (filter (\<lambda>(k, s). \<exists>e. mapGet E k = Some e \<and> sec_content e \<noteq> sec_content s) N)"
    unfolding c_def compareSections_def Let_def E_def [symmetric] N_def [symmetric]
    by (simp only: SectionComparison.select_convs classified_modified)
  have "map m_new (modified c) =
          map snd (filter (\<lambda>(k, s). \<exists>e. mapGet E k = Some e \<and> sec_content e \<noteq> sec_content s) N)"
    unfolding c_def compareSections_def Let_def E_def [symmetric] N_def [symmetric]
    by (simp only: SectionComparison.select_convs classified_modified_new)
  then show "map sec_title (map m_new (modified c)) = map m_title (modified c)"
    by (simp only: m entry_titles [OF tN])
  have "unchanged c =
          map snd (filter (\<lambda>(k, s). \<exists>e. mapGet E k = Some e \<and> sec_content e = sec_content s) N)"
    unfolding c_def compareSections_def Let_def E_def [symmetric] N_def [symmetric]
    by (simp only: SectionComparison.select_convs classified_unchanged)
  then show "map sec_title (unchanged c) =
           map fst (filter (\<lambda>(k, s). \<exists>e. mapGet E k = Some e \<and> sec_content e = sec_content s) N)"
    by (simp only: entry_titles [OF tN])
qed

lemma keys_filter_disjoint:
  assumes "distinct (map fst m)" and "\<And>k s. (k, s) \<in> set m \<Longrightarrow> \<not> (P (k, s) \<and> Q (k, s))"
  shows "fst ` set (filter P m) \<inter> fst ` set (filter Q m) = {}"
proof -
  have "inj_on fst (set m)"
    using assms(1) by (simp add: distinct_map)
  then show ?thesis
    using assms(2) by (fastforce simp: inj_on_def)
qed

lemma removed_by_titles:
  "removed (compareSections es ns) =
     map snd (filter (\<lambda>(k, s). k \<notin> sec_title ` set ns) (sectionMap es))"
  unfolding compareSections_def Let_def
  by (simp only: SectionComparison.select_convs pushed_entries mapHas_sectionMap)

lemma compareSections_title_sets:
  fixes es ns :: Sections
  defines "c \<equiv> compareSections es ns"
  shows "set (map sec_title (added c)) = sec_title ` set ns - sec_title ` set es"
    and "set (map sec_title (removed c)) = sec_title ` set es - sec_title ` set ns"
    and "set (map m_title (modified c)) \<union> set (map sec_title (unchanged c))
           = sec_title ` set ns \<inter> sec_title ` set es"
proof -
  define E where "E = sectionMap es"
  define N where "N = sectionMap ns"
  have kE: "fst ` set E = sec_title ` set es" and kN: "fst ` set N = sec_title ` set ns"
    by (simp_all add: E_def N_def keys_sectionMap)
  have hasE: "\<And>k. mapHas E k \<longleftrightarrow> k \<in> sec_title ` set es"
    and hasN: "\<And>k. mapHas N k \<longleftrightarrow> k \<in> sec_title ` set ns"
    by (simp_all add: E_def N_def mapHas_sectionMap)
  show "set (map sec_title (added c)) = sec_title ` set ns - sec_title ` set es"
    unfolding c_def compareSections_titles E_def [symmetric] N_def [symmetric]
    using kN by (auto simp: hasE)
  show "set (map sec_title (removed c)) = sec_title ` set es - sec_title ` set ns"
    unfolding c_def compareSections_titles E_def [symmetric] N_def [symmetric]
    using kE by (auto simp: hasN)
  define M :: "string \<times> DocumentSection \<Rightarrow> bool"
    where "M = (\<lambda>(k, s). \<exists>e. mapGet E k = Some e \<and> sec_content e \<noteq> sec_content s)"
  define U :: "string \<times> DocumentSection \<Rightarrow> bool"
    where "U = (\<lambda>(k, s). \<exists>e. mapGet E k = Some e \<and> sec_content e = sec_content s)"
  have inE: "\<And>k s. M (k, s) \<or> U (k, s) \<longleftrightarrow> k \<in> sec_title ` set es"
    unfolding hasE [symmetric] by (auto simp: M_def U_def mapHas_mapGet)
  have "fst ` set (filter M N) \<union> fst ` set (filter U N) = fst ` set N \<inter> sec_title ` set es"
    using inE by force
  then show "set (map m_title (modified c)) \<union> set (map sec_title (unchanged c))
           = sec_title ` set ns \<inter> sec_title ` set es"
    unfolding c_def compareSections_titles E_def [symmetric] N_def [symmetric] kN [symmetric]
      M_def [symmetric] U_def [symmetric]
    by (simp only: set_map)
qed

text \<open>The merged section list has exactly the titles of the incoming list.\<close>

lemma merged_titles:
  fixes es ns :: Sections
  defines "c \<equiv> compareSections es ns"
  shows "sec_title ` set (unchanged c @ map m_new (modified c) @ added c) = sec_title ` set ns"
proof -
  have "map sec_title (unchanged c @ map m_new (modified c) @ added c)
          = map sec_title (unchanged c) @ map m_title (modified c) @ map sec_title (added c)"
    using compareSections_titles(4) [of es ns, folded c_def] by (simp only: map_append)
  then have "set (map sec_title (unchanged c @ map m_new (modified c) @ added c))
          = (set (map m_title (modified c)) \<union> set (map sec_title (unchanged c)))
              \<union> set (map sec_title (added c))"
    by (simp only: set_append Un_commute Un_left_commute)
  then have "set (map sec_title (unchanged c @ map m_new (modified c) @ added c))
          = sec_title ` set ns"
    unfolding c_def compareSections_title_sets by blast
  then show ?thesis
    by (simp only: set_map)
qed

section \<open>The specification's statements\<close>

subsection \<open>C1: the title scenario\<close>

text \<open>
  C1, as the specification words it, expects a similarity of 2/3 and the significance
  \<open>medium\<close> for the titles "Auth Service" and "Authentication Service". The two token sets
  share one token of three, so the similarity is 1/3 and the change is \<open>high\<close>.
\<close>

theorem title_scenario_counterexample:
  "calculateStringSimilarity ''Auth Service'' ''Authentication Service'' = 1 / 3
   \<and> calculateStringSimilarity ''Auth Service'' ''Authentication Service'' \<noteq> 2 / 3
   \<and> map significance (changes (analyzeDocuments storedDocument renamedDocument defaultOptions))
       = [High]
   \<and> map significance (changes (analyzeDocuments storedDocument renamedDocument defaultOptions))
       \<noteq> [Medium]"
proof -
  have "map significance (changes (analyzeDocuments storedDocument renamedDocument defaultOptions))
          = [High]"
    by code_simp
  then show ?thesis
    by (simp add: auth_similarity)
qed

text \<open>
  C1 (amended): for an existing document titled "Auth Service" and an incoming document
  titled "Authentication Service" that are otherwise identical, \<open>analyzeDocuments\<close> with
  the default options returns exactly one change, for section "title", a modification
  whose similarity is 1/3 and whose significance is \<open>high\<close> (1/3 is below 0.5); the
  confidence is 0.6 and the recommendation is \<open>update-existing\<close> (one change, one of
  high significance).
\<close>

theorem title_change_scenario:
  "calculateStringSimilarity ''Auth Service'' ''Authentication Service'' = 1 / 3
   \<and> analyzeDocuments
       (d\<lparr>enrichedContent := (enrichedContent d)\<lparr>title := ''Auth Service''\<rparr>\<rparr>)
       (d\<lparr>enrichedContent := (enrichedContent d)\<lparr>title := ''Authentication Service''\<rparr>\<rparr>)
       defaultOptions =
     \<lparr>hasChanges = True, confidence = 0.6,
      changes =
        [\<lparr>changeSection = ''title'', changeType = Modification,
          oldValue = Some ''Auth Service'', newValue = Some ''Authentication Service'',
          significance = High\<rparr>],
      recommendation = UpdateExisting\<rparr>"
  by (simp add: analyzeDocuments_def Let_def defaultOptions_def orFalse_def auth_similarity
      analyzeTextChanges_same analyzeSectionChanges_same analyzeMetadataChanges_same
      HIGH_SIGNIFICANCE_THRESHOLD_def calculateConfidence_def generateRecommendation_def
      countSignificance_def)

theorem title_change_scenario_witness:
  "analyzeDocuments storedDocument renamedDocument defaultOptions =
     \<lparr>hasChanges = True, confidence = 0.6,
      changes =
        [\<lparr>changeSection = ''title'', changeType = Modification,
          oldValue = Some ''Auth Service'', newValue = Some ''Authentication Service'',
          significance = High\<rparr>],
      recommendation = UpdateExisting\<rparr>"
  using title_change_scenario [of storedDocument]
  by (simp add: storedDocument_def renamedDocument_def)

subsection \<open>C2: the confidence\<close>

text \<open>
  C2: for every pair of documents and every options value, the confidence that
  \<open>analyzeDocuments\<close> returns is 1 when the returned (filtered) change list is empty;
  otherwise it is 0.8 minus min(0.4, n * 0.05), where n is the number of changes, minus
  (0.15 per change of high significance plus 0.08 per change of medium significance),
  clamped into the interval from 0.1 to 1.
\<close>

theorem confidence_formula:
  "confidence (analyzeDocuments existing newDoc options) =
     (let cs = changes (analyzeDocuments existing newDoc options);
          n = length cs;
          high = length (filter (\<lambda>c. significance c = High) cs);
          medium = length (filter (\<lambda>c. significance c = Medium) cs)
      in if cs = [] then 1
         else max 0.1
                (min 1 (0.8 - min 0.4 (real n * 0.05)
                          - (real high * 0.15 + real medium * 0.08))))"
  by (simp add: analyze_fields(1) Let_def calculateConfidence_def countSignificance_def)

theorem confidence_formula_witness:
  "confidence (analyzeDocuments storedDocument revisedDocument defaultOptions) = 0.34"
  using confidence_formula [of storedDocument revisedDocument defaultOptions]
  by (simp add: revised_changes)

subsection \<open>C3: the recommendation\<close>

text \<open>
  C3: the recommendation that \<open>analyzeDocuments\<close> returns follows from the returned change
  list and confidence by this precedence: an empty list gives \<open>create-new\<close>; else more
  than two changes of high significance, or a confidence below 0.5, give
  \<open>manual-review\<close>; else at most three changes with at most one of high significance
  give \<open>update-existing\<close>; else more than five changes give \<open>create-new\<close>; anything else
  gives \<open>merge-required\<close>.
\<close>

theorem recommendation_precedence:
  "recommendation (analyzeDocuments existing newDoc options) =
     (let cs = changes (analyzeDocuments existing newDoc options);
          conf = confidence (analyzeDocuments existing newDoc options);
          total = length cs;
          high = length (filter (\<lambda>c. significance c = High) cs)
      in if cs = [] then CreateNew
         else if high > 2 \<or> conf < 0.5 then ManualReview
         else if total \<le> 3 \<and> high \<le> 1 then UpdateExisting
         else if total > 5 then CreateNew
         else MergeRequired)"
  by (simp add: analyze_fields(2) Let_def generateRecommendation_def countSignificance_def)

theorem recommendation_precedence_witness:
  "recommendation (analyzeDocuments storedDocument revisedDocument defaultOptions) = ManualReview"
proof -
  have "confidence (analyzeDocuments storedDocument revisedDocument defaultOptions) = 0.34"
    by (simp add: analyze_fields(1) revised_changes calculateConfidence_def countSignificance_def)
  then show ?thesis
    using recommendation_precedence [of storedDocument revisedDocument defaultOptions]
    by (simp add: revised_changes)
qed

subsection \<open>C4: a document against itself\<close>

text \<open>
  C4: for every document \<open>d\<close> and every options value, \<open>analyzeDocuments d d\<close> returns
  \<open>hasChanges = false\<close>, confidence 1, an empty change list and the recommendation
  \<open>create-new\<close>.
\<close>

theorem analyze_self:
  "analyzeDocuments d d options =
     \<lparr>hasChanges = False, confidence = 1, changes = [], recommendation = CreateNew\<rparr>"
  by (simp add: analyzeDocuments_def Let_def analyzeSectionChanges_same
      analyzeMetadataChanges_same analyzeTextChanges_same calculateConfidence_def
      generateRecommendation_def)

theorem analyze_self_witness:
  "analyzeDocuments revisedDocument revisedDocument
     \<lparr>threshold = Some 0.9, ignoreMinorChanges = Some True, focusAreas = Some [''version'']\<rparr> =
     \<lparr>hasChanges = False, confidence = 1, changes = [], recommendation = CreateNew\<rparr>"
  by (rule analyze_self)

subsection \<open>C5: the section comparison is a partition\<close>

text \<open>
  C5: for every pair of section lists, \<open>compareSections\<close> partitions the titles: the
  titles of the four output arrays \<open>added\<close>, \<open>removed\<close>, \<open>modified\<close> and \<open>unchanged\<close>, put
  one after the other, hold no title twice, and they are exactly the titles that occur
  in the existing list or in the incoming list. (A title that is repeated in one list
  counts once; by \<open>newMap_last_wins\<close> its last section is the one compared.)
\<close>

theorem compareSections_partition:
  "let c = compareSections existingSections newSections;
       titles = map sec_title (added c) @ map sec_title (removed c)
                  @ map m_title (modified c) @ map sec_title (unchanged c)
   in distinct titles
      \<and> set titles = set (map sec_title existingSections) \<union> set (map sec_title newSections)"
proof -
  define E where "E = sectionMap existingSections"
  define N where "N = sectionMap newSections"
  define M :: "string \<times> DocumentSection \<Rightarrow> bool"
    where "M = (\<lambda>(k, s). \<exists>e. mapGet E k = Some e \<and> sec_content e \<noteq> sec_content s)"
  define U :: "string \<times> DocumentSection \<Rightarrow> bool"
    where "U = (\<lambda>(k, s). \<exists>e. mapGet E k = Some e \<and> sec_content e = sec_content s)"
  have dE: "distinct (map fst E)" and dN: "distinct (map fst N)"
    by (simp_all add: E_def N_def distinct_newMap)
  have kE: "fst ` set E = sec_title ` set existingSections"
    and kN: "fst ` set N = sec_title ` set newSections"
    by (simp_all add: E_def N_def keys_sectionMap)
  have MU: "fst ` set (filter M N) \<inter> fst ` set (filter U N) = {}"
    by (rule keys_filter_disjoint [OF dN]) (auto simp: M_def U_def)
  have inE: "\<And>k s. M (k, s) \<or> U (k, s) \<longleftrightarrow> mapHas E k"
    by (auto simp: M_def U_def mapHas_mapGet)
  have cover: "fst ` set (filter M N) \<union> fst ` set (filter U N) = {k \<in> fst ` set N. mapHas E k}"
    using inE by force
  have hasE: "\<And>k. mapHas E k \<longleftrightarrow> k \<in> fst ` set E"
    and hasN: "\<And>k. mapHas N k \<longleftrightarrow> k \<in> fst ` set N"
    by (simp_all add: mapHas_def)
  have "distinct (filter (\<lambda>k. \<not> mapHas E k) (map fst N) @ filter (\<lambda>k. \<not> mapHas N k) (map fst E)
          @ map fst (filter M N) @ map fst (filter U N))"
    using dE dN MU cover by (auto simp: distinct_map_filter hasE hasN)
  moreover have "set (filter (\<lambda>k. \<not> mapHas E k) (map fst N) @ filter (\<lambda>k. \<not> mapHas N k) (map fst E)
          @ map fst (filter M N) @ map fst (filter U N))
        = sec_title ` set existingSections \<union> sec_title ` set newSections"
    using cover by (auto simp: hasE hasN kE [symmetric] kN [symmetric])
  ultimately show ?thesis
    unfolding Let_def compareSections_titles
    by (simp add: E_def N_def M_def U_def)
qed

theorem compareSections_partition_witness:
  "(let c = compareSections repeatedSections arrivingSections;
        titles = map sec_title (added c) @ map sec_title (removed c)
                   @ map m_title (modified c) @ map sec_title (unchanged c)
    in distinct titles
       \<and> set titles = set (map sec_title repeatedSections) \<union> set (map sec_title arrivingSections))
   \<and> map sec_title (added (compareSections repeatedSections arrivingSections)) = [''C'']
   \<and> map sec_title (removed (compareSections repeatedSections arrivingSections)) = [''B'']
   \<and> map m_title (modified (compareSections repeatedSections arrivingSections)) = [''A'']
   \<and> unchanged (compareSections repeatedSections arrivingSections) = []"
proof -
  have "map sec_title (added (compareSections repeatedSections arrivingSections)) = [''C'']"
    and "map sec_title (removed (compareSections repeatedSections arrivingSections)) = [''B'']"
    and "map m_title (modified (compareSections repeatedSections arrivingSections)) = [''A'']"
    and "unchanged (compareSections repeatedSections arrivingSections) = []"
    by code_simp+
  then show ?thesis
    using compareSections_partition [of repeatedSections arrivingSections] by simp
qed

subsection \<open>C6: merging and comparing again\<close>

text \<open>
  C6: for every pair of documents, let \<open>merged\<close> be the result of \<open>createMergePreview\<close>
  with the strategy "merge-sections". Comparing the existing sections with the merged
  sections reports as removed exactly what the comparison with the incoming sections
  reported; so no title that was classified unchanged or modified is reported removed,
  and among the titles of the two documents the ones missing from the merged section
  list are exactly those originally classified removed.
\<close>

theorem merge_sections_roundtrip:
  "let es = sections (enrichedContent existing);
       ns = sections (enrichedContent newDoc);
       c = compareSections es ns;
       merged = createMergePreview clock existing newDoc ''merge-sections'';
       ms = sections (enrichedContent merged);
       c' = compareSections es ms
   in removed c' = removed c
      \<and> (\<forall>t \<in> set (map sec_title (unchanged c)) \<union> set (map m_title (modified c)).
            t \<notin> set (map sec_title (removed c')))
      \<and> (\<forall>t \<in> set (map sec_title es) \<union> set (map sec_title ns).
            t \<notin> set (map sec_title ms) \<longleftrightarrow> t \<in> set (map sec_title (removed c)))"
proof -
  let ?es = "sections (enrichedContent existing)"
  let ?ns = "sections (enrichedContent newDoc)"
  let ?c = "compareSections ?es ?ns"
  let ?ms = "unchanged ?c @ map m_new (modified ?c) @ added ?c"
  have merged:
    "sections (enrichedContent (createMergePreview clock existing newDoc ''merge-sections'')) = ?ms"
    by (simp add: createMergePreview_def mergeSections_def Let_def)
  have titles: "sec_title ` set ?ms = sec_title ` set ?ns"
    by (rule merged_titles)
  have same: "removed (compareSections ?es ?ms) = removed ?c"
    by (simp only: removed_by_titles titles)
  have r: "set (map sec_title (removed ?c)) = sec_title ` set ?es - sec_title ` set ?ns"
    by (rule compareSections_title_sets)
  have mu: "set (map m_title (modified ?c)) \<union> set (map sec_title (unchanged ?c))
              = sec_title ` set ?ns \<inter> sec_title ` set ?es"
    by (rule compareSections_title_sets)
  have a: "\<forall>t \<in> set (map sec_title (unchanged ?c)) \<union> set (map m_title (modified ?c)).
            t \<notin> set (map sec_title (removed (compareSections ?es ?ms)))"
    using mu unfolding same r by blast
  have b: "\<forall>t \<in> set (map sec_title ?es) \<union> set (map sec_title ?ns).
            t \<notin> set (map sec_title ?ms) \<longleftrightarrow> t \<in> set (map sec_title (removed ?c))"
    unfolding r using titles by (simp only: set_map) blast
  show ?thesis
    unfolding Let_def merged by (intro conjI same a b)
qed

theorem merge_sections_roundtrip_witness:
  "''Overview'' \<in> set (map m_title (modified
       (compareSections (sections (enrichedContent storedDocument))
          (sections (enrichedContent revisedDocument)))))
   \<and> ''Overview'' \<notin> set (map sec_title (removed
       (compareSections (sections (enrichedContent storedDocument))
          (sections (enrichedContent
             (createMergePreview fixedClock storedDocument revisedDocument ''merge-sections''))))))
   \<and> ''Legacy'' \<in> set (map sec_title (removed
       (compareSections (sections (enrichedContent storedDocument))
          (sections (enrichedContent revisedDocument)))))
   \<and> ''Legacy'' \<notin> set (map sec_title (sections (enrichedContent
       (createMergePreview fixedClock storedDocument revisedDocument ''merge-sections''))))"
proof -
  have m: "''Overview'' \<in> set (map m_title (modified
       (compareSections (sections (enrichedContent storedDocument))
          (sections (enrichedContent revisedDocument)))))"
    by code_simp
  have l: "''Legacy'' \<in> set (map sec_title (removed
       (compareSections (sections (enrichedContent storedDocument))
          (sections (enrichedContent revisedDocument)))))"
    by code_simp
  have e: "''Legacy'' \<in> set (map sec_title (sections (enrichedContent storedDocument)))"
    by code_simp
  show ?thesis
    using merge_sections_roundtrip [of storedDocument revisedDocument fixedClock] m l e
    unfolding Let_def by blast
qed

subsection \<open>C7: the strategy prefer-existing\<close>

text \<open>
  C7: for every pair of documents, \<open>createMergePreview\<close> with the strategy
  "prefer-existing" returns the existing document with \<open>updatedAt\<close> set to the current
  time: the id, \<open>createdAt\<close>, the original input, the whole content with its sections,
  the metadata and the structured data are those of the existing document.
\<close>

theorem prefer_existing_keeps_document:
  "createMergePreview clock existing newDoc ''prefer-existing''
     = existing\<lparr>updatedAt := clock 0\<rparr>"
  by (simp add: createMergePreview_def)

theorem prefer_existing_keeps_document_witness:
  "createMergePreview fixedClock storedDocument revisedDocument ''prefer-existing''
     = storedDocument\<lparr>updatedAt := ''2024-06-01T10:00:00.000Z''\<rparr>"
  using prefer_existing_keeps_document [of fixedClock storedDocument revisedDocument]
  by (simp add: fixedClock_def)

subsection \<open>C8: the range of the similarity\<close>

text \<open>
  C8: for all strings \<open>a\<close> and \<open>b\<close> the similarity lies between 0 and 1; when the union of
  the two token sets is empty the result is 1, with no division by zero; and the
  similarity of the empty string with itself is 1.
\<close>

theorem similarity_range:
  "0 \<le> calculateStringSimilarity a b \<and> calculateStringSimilarity a b \<le> 1
   \<and> calculateStringSimilarity [] [] = 1
   \<and> (set tokens1 \<union> set tokens2 = {} \<longrightarrow> tokenSimilarity tokens1 tokens2 = 1)"
proof -
  have "calculateStringSimilarity [] [] = 1"
    by code_simp
  moreover have "set tokens1 \<union> set tokens2 = {} \<longrightarrow> tokenSimilarity tokens1 tokens2 = 1"
    by (simp add: tokenSimilarity_def newSet_def)
  ultimately show ?thesis
    using tokenSimilarity_bounds by (simp add: calculateStringSimilarity_def)
qed

theorem similarity_range_witness:
  "set ([] :: string list) \<union> set [] = {}
   \<and> tokenSimilarity [] [] = 1
   \<and> 0 \<le> calculateStringSimilarity ''Auth Service'' ''Authentication Service''
   \<and> calculateStringSimilarity ''Auth Service'' ''Authentication Service'' \<le> 1"
  using similarity_range [of "''Auth Service''" "''Authentication Service''" "[]" "[]"]
  by simp

subsection \<open>C9: a document without sections\<close>

text \<open>
  C9, as the specification words it, expects a document whose \<open>sections\<close> is undefined
  to be analyzed as if the list were empty. The analyzer does not return for such a
  document: the call ends in a \<open>TypeError\<close>.
\<close>

theorem missing_sections_counterexample:
  "analyzeDocuments_runtime
     (typedDocument storedDocument (Some (sections (enrichedContent storedDocument))))
     (typedDocument revisedDocument None) defaultOptions
   = Inl TypeError"
  by (simp add: analyzeDocuments_runtime_def typedDocument_def)

text \<open>
  C9 (amended): \<open>sections\<close> is a required array of both input documents, as its type
  declares; the analyzer supplies no default for it. When \<open>sections\<close> is undefined in
  either document the call fails with a \<open>TypeError\<close>; when both documents carry a list,
  which may be empty, it returns a normal result, the one of the typed analyzer.
\<close>

theorem missing_sections_fail:
  "(sections (enrichedContent existing) = None \<or> sections (enrichedContent newDoc) = None
      \<longrightarrow> analyzeDocuments_runtime existing newDoc options = Inl TypeError)
   \<and> (\<forall>es ns. sections (enrichedContent existing) = Some es
         \<and> sections (enrichedContent newDoc) = Some ns
      \<longrightarrow> analyzeDocuments_runtime existing newDoc options
           = Inr (analyzeDocuments (typedDocument existing es) (typedDocument newDoc ns) options))"
  by (auto simp: analyzeDocuments_runtime_def split: option.splits)

theorem missing_sections_fail_witness:
  "analyzeDocuments_runtime (typedDocument storedDocument None)
       (typedDocument storedDocument (Some [])) defaultOptions = Inl TypeError
   \<and> analyzeDocuments_runtime (typedDocument storedDocument (Some []))
       (typedDocument storedDocument (Some [])) defaultOptions
     = Inr \<lparr>hasChanges = False, confidence = 1, changes = [], recommendation = CreateNew\<rparr>"
proof -
  let ?absent = "typedDocument storedDocument (None :: Sections option)"
  let ?empty = "typedDocument storedDocument (Some ([] :: Sections))"
  have absent: "sections (enrichedContent ?absent) = None"
    by (simp add: typedDocument_def)
  have empty: "sections (enrichedContent ?empty) = Some []"
    by (simp add: typedDocument_def)
  have fails: "analyzeDocuments_runtime ?absent ?empty defaultOptions = Inl TypeError"
    by (rule missing_sections_fail [THEN conjunct1, rule_format, OF disjI1, OF absent])
  have returns: "analyzeDocuments_runtime ?empty ?empty defaultOptions
       = Inr (analyzeDocuments (typedDocument ?empty []) (typedDocument ?empty []) defaultOptions)"
    by (rule missing_sections_fail [THEN conjunct2, rule_format, OF conjI, OF empty empty])
  have same: "analyzeDocuments (typedDocument ?empty []) (typedDocument ?empty []) defaultOptions
       = \<lparr>hasChanges = False, confidence = 1, changes = [], recommendation = CreateNew\<rparr>"
    by (simp add: analyzeDocuments_def Let_def analyzeSectionChanges_same
        analyzeMetadataChanges_same analyzeTextChanges_same calculateConfidence_def
        generateRecommendation_def)
  show ?thesis
    by (simp only: fails returns same simp_thms)
qed

subsection \<open>C10: the threshold option\<close>

text \<open>
  C10: for every pair of documents and every two options values that agree on
  \<open>ignoreMinorChanges\<close> and on \<open>focusAreas\<close>, so that they differ at most in \<open>threshold\<close>
  (which either may leave out), \<open>analyzeDocuments\<close> returns the same result: the
  threshold is read, defaulted to 0.7, and has no effect on the output.
\<close>

theorem threshold_has_no_effect:
  assumes "ignoreMinorChanges options1 = ignoreMinorChanges options2"
    and "focusAreas options1 = focusAreas options2"
  shows "analyzeDocuments existing newDoc options1 = analyzeDocuments existing newDoc options2"
  by (simp only: analyzeDocuments_def Let_def assms)

theorem threshold_has_no_effect_witness:
  "analyzeDocuments storedDocument revisedDocument
     \<lparr>threshold = Some 0.99, ignoreMinorChanges = None, focusAreas = None\<rparr>
   = analyzeDocuments storedDocument revisedDocument defaultOptions"
  by (rule threshold_has_no_effect) (simp_all add: defaultOptions_def)

end
